theory Spec2Isabelle
  imports
    Complex_Main
    "HOL-Library.Char_ord"
    "HOL-Library.List_Lexorder"
    "HOL-Library.Product_Lexorder"
    "HOL-Library.Sublist"
begin

section \<open>The e-commerce dashboard: data model\<close>

text \<open>
  The dashboard script \<^verbatim>\<open>dashboard/main.py\<close> loads two CSV files into pandas
  dataframes, filters the orders by approval date, asks \<^verbatim>\<open>DataAnalyzer\<close> for five
  aggregate tables and computes the displayed metrics from them.

  A dataframe is a list of rows in row order. A pandas \<^verbatim>\<open>Series\<close> is a list of
  (index label, value) pairs. Python integers are \<open>int\<close>. Floating-point columns and
  results (payment values, coordinates, means) are exact rationals: the claims are about
  which quotient is computed, not about rounding. A mean that pandas reports as NaN is
  \<open>None\<close>.
\<close>

type_synonym timestamp = int
  \<comment> \<open>\<^verbatim>\<open>datetime64[ns]\<close>: nanoseconds since 1970-01-01T00:00:00\<close>

type_synonym date = int
  \<comment> \<open>\<^verbatim>\<open>datetime.date\<close>: days since 1970-01-01\<close>

definition ns_per_day :: int where
  "ns_per_day = 86400000000000"

definition date_of :: "timestamp \<Rightarrow> date" where
  \<comment> \<open>the calendar date a timestamp falls on\<close>
  "date_of t = t div ns_per_day"

definition midnight :: "date \<Rightarrow> timestamp" where
  \<comment> \<open>\<^verbatim>\<open>str(d)\<close> is \<^verbatim>\<open>'YYYY-MM-DD'\<close>; compared with a datetime column, pandas
      parses it as the timestamp of that day at 00:00:00\<close>
  "midnight d = d * ns_per_day"

text \<open>
  A row of \<^verbatim>\<open>all_df\<close>: one order item with the fields of its order. The script names
  the column \<^verbatim>\<open>order_approved_at\<close> and, through the aggregate tables, the product
  category and the customer state; the other fields are those of the specification's
  data model.
\<close>

record order =
  order_id :: string
  customer_id :: string
  order_status :: string
  order_approved_at :: timestamp
  payment_value :: rat
  review_score :: int
  product_category_name_english :: string
  customer_state :: string

record geolocation =
  customer_unique_id :: string
  geolocation_lat :: rat
  geolocation_lng :: rat
  geolocation_state :: string

datatype error = ValueError | IndexError

section \<open>Loading and filtering (main.py, lines 33-53)\<close>

text \<open>
  \<^verbatim>\<open>data = geolocation.drop_duplicates(subset='customer_unique_id')\<close>

  \<^verbatim>\<open>drop_duplicates\<close> has \<^verbatim>\<open>keep='first'\<close> by default: it walks the rows in order and
  drops a row whose key was already seen.
\<close>

fun drop_dups :: "('r \<Rightarrow> 'k) \<Rightarrow> 'k list \<Rightarrow> 'r list \<Rightarrow> 'r list" where
  "drop_dups key seen [] = []"
| "drop_dups key seen (r # rs) =
     (if key r \<in> set seen then drop_dups key seen rs
      else r # drop_dups key (key r # seen) rs)"

definition drop_duplicates :: "('r \<Rightarrow> 'k) \<Rightarrow> 'r list \<Rightarrow> 'r list" where
  "drop_duplicates key df = drop_dups key [] df"

definition data :: "geolocation list \<Rightarrow> geolocation list" where
  "data geo = drop_duplicates customer_unique_id geo"

text \<open>
  \<^verbatim>\<open>main_df = all_df[(all_df["order_approved_at"] >= str(start_date)) &
                   (all_df["order_approved_at"] <= str(end_date))]\<close>

  \<open>all_df\<close> is the order table after loading (rows with a parsed approval timestamp;
  a row whose timestamp is missing fails both comparisons and never reaches the
  working set). \<open>start_date\<close> and \<open>end_date\<close> are the dates the date picker returns.
\<close>

definition main_df :: "order list \<Rightarrow> date \<Rightarrow> date \<Rightarrow> order list" where
  "main_df all_df start_date end_date =
     filter (\<lambda>r. midnight start_date \<le> order_approved_at r \<and>
                 order_approved_at r \<le> midnight end_date) all_df"

section \<open>The pandas operations the script calls\<close>

text \<open>
  \<^verbatim>\<open>Series.value_counts()\<close> counts the values of a series. Its hash table holds the
  distinct values in the order they first occur (\<open>tally\<close>); the result is then sorted
  by count, descending, which pandas does by reversing, sorting ascending and reversing
  again. The sort is taken to be stable, so values with equal counts keep their
  first-occurrence order: pandas promises no order among ties, and first-occurrence
  order is the tie-break the specification names.
\<close>

fun tally_add :: "'a \<Rightarrow> ('a \<times> int) list \<Rightarrow> ('a \<times> int) list" where
  "tally_add x [] = [(x, 1)]"
| "tally_add x ((y, n) # t) =
     (if x = y then (y, n + 1) # t else (y, n) # tally_add x t)"

definition tally :: "'a list \<Rightarrow> ('a \<times> int) list" where
  "tally xs = foldl (\<lambda>t x. tally_add x t) [] xs"

definition value_counts :: "'a list \<Rightarrow> ('a \<times> int) list" where
  "value_counts xs = rev (sort_key snd (rev (tally xs)))"

text \<open>
  \<^verbatim>\<open>Series.idxmax()\<close>: the index label of the first maximal value; on an empty series
  it raises \<^verbatim>\<open>ValueError\<close>.
\<close>

fun argmax_from :: "'k \<times> int \<Rightarrow> ('k \<times> int) list \<Rightarrow> 'k" where
  "argmax_from (bk, bv) [] = bk"
| "argmax_from (bk, bv) ((k, v) # t) =
     (if bv < v then argmax_from (k, v) t else argmax_from (bk, bv) t)"

fun idxmax :: "('k \<times> int) list \<Rightarrow> error + 'k" where
  "idxmax [] = Inl ValueError"
| "idxmax (kv # t) = Inr (argmax_from kv t)"

text \<open>\<^verbatim>\<open>s.index[0]\<close>: the first index label; \<^verbatim>\<open>IndexError\<close> on an empty index.\<close>

fun index0 :: "('k \<times> 'v) list \<Rightarrow> error + 'k" where
  "index0 [] = Inl IndexError"
| "index0 ((k, v) # t) = Inr k"

text \<open>\<^verbatim>\<open>Series.mean()\<close>: sum over count; NaN (here \<open>None\<close>) on an empty series.\<close>

definition mean :: "int list \<Rightarrow> rat option" where
  "mean vs = (if vs = [] then None
              else Some (of_int (sum_list vs) / of_int (int (length vs))))"

section \<open>DataAnalyzer\<close>

text \<open>
  \<^verbatim>\<open>from func import DataAnalyzer\<close>: the module \<^verbatim>\<open>func\<close> is not among the sources, so
  its five operations are modelled from section 4.1 of the specification.
\<close>

definition approval_date :: "order \<Rightarrow> date" where
  "approval_date r = date_of (order_approved_at r)"

definition create_daily_orders_df :: "order list \<Rightarrow> (date \<times> int \<times> rat) list" where
  \<comment> \<open>Modelled from the spec: \<^verbatim>\<open>DataAnalyzer.create_daily_orders_df\<close> (func.py) is
      missing. "group by calendar date of order-approval timestamp; output
      ordered-by-date sequence of (date, order_count, revenue_sum)"; three orders of one
      day with revenue 10, 20, 30 give the one row (day, 3, 60).\<close>
  "create_daily_orders_df df =
     map (\<lambda>d. (d, int (length (filter (\<lambda>r. approval_date r = d) df)),
                  sum_list (map payment_value (filter (\<lambda>r. approval_date r = d) df))))
         (sort (remdups (map approval_date df)))"

definition create_sum_order_items_df :: "order list \<Rightarrow> (string \<times> int) list" where
  \<comment> \<open>Modelled from the spec: \<^verbatim>\<open>DataAnalyzer.create_sum_order_items_df\<close> (func.py) is
      missing. "group order-item records by product category; output (category,
      total_quantity) sorted descending by quantity. Ties broken by category name
      ascending"; "summing all quantities equals total item-record count".\<close>
  "create_sum_order_items_df df =
     sort_key (\<lambda>(c, n). (- n, c)) (tally (map product_category_name_english df))"

fun mode_of :: "('k \<times> int) list \<Rightarrow> 'k option" where
  \<comment> \<open>Modelled from the spec: "the mode (most frequent score, ties broken by
      first-encountered value order)"; an empty table has none.\<close>
  "mode_of [] = None"
| "mode_of (kv # t) = Some (argmax_from kv t)"

definition review_score_df :: "order list \<Rightarrow> (int \<times> int) list \<times> int option" where
  \<comment> \<open>Modelled from the spec: \<^verbatim>\<open>DataAnalyzer.review_score_df\<close> (func.py) is missing.
      "frequency count of review scores 1-5; also returns the mode". The script plots the
      table's index as the rating and its values as the count (lines 151-152).\<close>
  "review_score_df df =
     (tally (map review_score df), mode_of (tally (map review_score df)))"

definition create_bystate_df :: "order list \<Rightarrow> (string \<times> int) list \<times> string option" where
  \<comment> \<open>Modelled from the spec: \<^verbatim>\<open>DataAnalyzer.create_bystate_df\<close> (func.py) is missing.
      "frequency count of customer state codes; returns full table plus the modal
      state". The table has the columns \<^verbatim>\<open>customer_state\<close> and \<^verbatim>\<open>customer_count\<close>
      (lines 166-171). The spec states no row order for this table: a list has to have
      one, the rows stand here in the order the hash table holds them, and no theorem
      below depends on that order.\<close>
  "create_bystate_df df =
     (tally (map customer_state df), mode_of (tally (map customer_state df)))"

definition create_order_status :: "order list \<Rightarrow> (string \<times> int) list \<times> string option" where
  \<comment> \<open>Modelled from the spec: \<^verbatim>\<open>DataAnalyzer.create_order_status\<close> (func.py) is missing.
      "frequency count of order status values; returns full table plus the modal
      status".\<close>
  "create_order_status df =
     (tally (map order_status df), mode_of (tally (map order_status df)))"

section \<open>The displayed metrics (main.py, lines 74-183)\<close>

definition total_order :: "(date \<times> int \<times> rat) list \<Rightarrow> int" where
  \<comment> \<open>\<^verbatim>\<open>daily_orders_df["order_count"].sum()\<close>\<close>
  "total_order daily_orders_df = sum_list (map (\<lambda>(d, order_count, revenue). order_count) daily_orders_df)"

definition total_revenue :: "(date \<times> int \<times> rat) list \<Rightarrow> rat" where
  \<comment> \<open>\<^verbatim>\<open>daily_orders_df["revenue"].sum()\<close>, before currency formatting\<close>
  "total_revenue daily_orders_df = sum_list (map (\<lambda>(d, order_count, revenue). revenue) daily_orders_df)"

definition avg_review_score :: "(int \<times> int) list \<Rightarrow> rat option" where
  \<comment> \<open>\<^verbatim>\<open>review_score.mean()\<close>: the mean of the series' values\<close>
  "avg_review_score review_scores = mean (map snd review_scores)"

definition total_items :: "(string \<times> int) list \<Rightarrow> int" where
  \<comment> \<open>\<^verbatim>\<open>sum_order_items_df["product_count"].sum()\<close>\<close>
  "total_items sum_order_items_df = sum_list (map snd sum_order_items_df)"

definition avg_items :: "(string \<times> int) list \<Rightarrow> rat option" where
  \<comment> \<open>\<^verbatim>\<open>sum_order_items_df["product_count"].mean()\<close>\<close>
  "avg_items sum_order_items_df = mean (map snd sum_order_items_df)"

definition most_common_review_score :: "(int \<times> int) list \<Rightarrow> error + int" where
  \<comment> \<open>\<^verbatim>\<open>review_score.value_counts().idxmax()\<close>: \<open>value_counts\<close> counts the values of
      the series, which are the counts of the frequency table\<close>
  "most_common_review_score review_scores = idxmax (value_counts (map snd review_scores))"

definition most_common_state :: "(string \<times> int) list \<Rightarrow> error + string" where
  \<comment> \<open>\<^verbatim>\<open>state.customer_state.value_counts().index[0]\<close>\<close>
  "most_common_state state = index0 (value_counts (map fst state))"

definition common_status' :: "(string \<times> int) list \<Rightarrow> error + int" where
  \<comment> \<open>\<^verbatim>\<open>common_status_ = order_status.value_counts().index[0]\<close>\<close>
  "common_status' statuses = index0 (value_counts (map snd statuses))"

record display =
  Total_Orders :: int
  Total_Revenue :: rat
  Avg_Review_Score :: "rat option"
  Total_Items_Sold :: int
  Avg_Items_per_Order :: "rat option"
  Most_Common_Review_Score :: int
  Most_Common_State :: string
  Most_Common_Order_Status :: int

text \<open>
  The rendering part of the script (lines 66-200) for given aggregate tables. The
  statements run in source order and the first exception ends the run. Plotting, layout
  and number formatting are calls into libraries and are left out.
\<close>

definition render ::
  "(date \<times> int \<times> rat) list \<Rightarrow> (string \<times> int) list \<Rightarrow> (int \<times> int) list \<Rightarrow>
   (string \<times> int) list \<Rightarrow> (string \<times> int) list \<Rightarrow> error + display" where
  "render daily_orders_df sum_order_items_df review_scores state statuses =
     (case most_common_review_score review_scores of
        Inl e \<Rightarrow> Inl e
      | Inr score \<Rightarrow>
          (case most_common_state state of
             Inl e \<Rightarrow> Inl e
           | Inr st \<Rightarrow>
               (case common_status' statuses of
                  Inl e \<Rightarrow> Inl e
                | Inr status \<Rightarrow>
                    Inr \<lparr>Total_Orders = total_order daily_orders_df,
                         Total_Revenue = total_revenue daily_orders_df,
                         Avg_Review_Score = avg_review_score review_scores,
                         Total_Items_Sold = total_items sum_order_items_df,
                         Avg_Items_per_Order = avg_items sum_order_items_df,
                         Most_Common_Review_Score = score,
                         Most_Common_State = st,
                         Most_Common_Order_Status = status\<rparr>)))"

text \<open>One run of the script from line 56 on, for the working set \<open>df\<close>.\<close>

definition dashboard :: "order list \<Rightarrow> error + display" where
  "dashboard df =
     render (create_daily_orders_df df) (create_sum_order_items_df df)
       (fst (review_score_df df)) (fst (create_bystate_df df))
       (fst (create_order_status df))"

section \<open>What the specification compares the display with\<close>

definition item_count :: "order list \<Rightarrow> string \<Rightarrow> int" where
  \<comment> \<open>the number of item records of one product category\<close>
  "item_count df c = int (length (filter (\<lambda>r. product_category_name_english r = c) df))"

definition items_per_order :: "order list \<Rightarrow> rat" where
  \<comment> \<open>the number of item records divided by the number of distinct orders\<close>
  "items_per_order df = of_nat (length df) / of_nat (card (order_id ` set df))"

section \<open>Example data\<close>

definition at_hour :: "date \<Rightarrow> int \<Rightarrow> timestamp" where
  "at_hour d h = midnight d + h * 3600000000000"

definition order_row ::
  "string \<Rightarrow> timestamp \<Rightarrow> rat \<Rightarrow> int \<Rightarrow> string \<Rightarrow> string \<Rightarrow> order" where
  "order_row oid t v s c st =
     \<lparr>order_id = oid, customer_id = ''cust_'' @ oid, order_status = ''delivered'',
      order_approved_at = t, payment_value = v, review_score = s,
      product_category_name_english = c, customer_state = st\<rparr>"

text \<open>
  Five item rows of four orders, in approval order. Day 17532 is 2018-01-01; no order
  is approved on day 17534. The review scores are 5, 5, 4, 3, 5.
\<close>

definition example_orders :: "order list" where
  "example_orders =
     [order_row ''o1'' (at_hour 17532 10) 10 5 ''toys'' ''AC'',
      order_row ''o1'' (at_hour 17532 10) 20 5 ''bed_bath_table'' ''AC'',
      order_row ''o2'' (at_hour 17532 15) 30 4 ''bed_bath_table'' ''SP'',
      order_row ''o3'' (at_hour 17533 0) 40 3 ''bed_bath_table'' ''SP'',
      order_row ''o4'' (at_hour 17535 9) 50 5 ''auto'' ''SP'']"

definition geo_row :: "string \<Rightarrow> rat \<Rightarrow> rat \<Rightarrow> string \<Rightarrow> geolocation" where
  "geo_row c lat lng st =
     \<lparr>customer_unique_id = c, geolocation_lat = lat, geolocation_lng = lng,
      geolocation_state = st\<rparr>"

definition example_geolocation :: "geolocation list" where
  "example_geolocation =
     [geo_row ''c1'' (- 235 / 10) (- 466 / 10) ''SP'',
      geo_row ''c2'' (- 229 / 10) (- 432 / 10) ''RJ'',
      geo_row ''c1'' (- 199 / 10) (- 439 / 10) ''MG'']"

section \<open>Deduplicated geolocation\<close>

lemma drop_dups_by_key:
  "filter (\<lambda>r. key r = c) (drop_dups key seen rs) =
     (if c \<in> set seen then []
      else case find (\<lambda>r. key r = c) rs of None \<Rightarrow> [] | Some r \<Rightarrow> [r])"
proof (induction rs arbitrary: seen)
  case Nil
  then show ?case by simp
next
  case (Cons r rs)
  show ?case
  proof (cases "key r \<in> set seen")
    case True
    then show ?thesis using Cons.IH [of seen] by auto
  next
    case False
    then show ?thesis using Cons.IH [of "key r # seen"] by auto
  qed
qed

lemma drop_dups_sublist: "subseq (drop_dups key seen rs) rs"
  by (induction rs arbitrary: seen) (auto intro: subseq_Cons')

text \<open>
  Claim C6. Whatever the geolocation input, the table \<open>data\<close> used for the map holds,
  for every customer unique id \<open>c\<close>, exactly the first input row with that id (and no
  row when the id does not occur); the surviving rows stay in input order.
\<close>

theorem data_keeps_first_row_per_customer:
  "filter (\<lambda>r. customer_unique_id r = c) (data geo) =
     (case find (\<lambda>r. customer_unique_id r = c) geo of None \<Rightarrow> [] | Some r \<Rightarrow> [r])
   \<and> subseq (data geo) geo"
  using drop_dups_by_key [of customer_unique_id c "[]" geo]
  by (simp add: data_def drop_duplicates_def drop_dups_sublist)

theorem data_keeps_first_row_per_customer_witness:
  "filter (\<lambda>r. customer_unique_id r = ''c1'') (data example_geolocation) =
     [geo_row ''c1'' (- 235 / 10) (- 466 / 10) ''SP'']
   \<and> subseq (data example_geolocation) example_geolocation"
  using data_keeps_first_row_per_customer [of "''c1''" example_geolocation]
  by (simp add: example_geolocation_def geo_row_def)

section \<open>Frequency tables\<close>

lemma tally_add_keys:
  "map fst (tally_add x t) = (if x \<in> set (map fst t) then map fst t else map fst t @ [x])"
  by (induction x t rule: tally_add.induct) auto

lemma tally_add_key_set: "fst ` set (tally_add x t) = insert x (fst ` set t)"
  using arg_cong [OF tally_add_keys [of x t], of set] by (auto split: if_splits)

lemma tally_add_sum: "sum_list (map snd (tally_add x t)) = sum_list (map snd t) + 1"
  by (induction x t rule: tally_add.induct) auto

lemma tally_add_fresh: "x \<notin> set (map fst t) \<Longrightarrow> tally_add x t = t @ [(x, 1)]"
  by (induction x t rule: tally_add.induct) auto

lemma foldl_tally_sum:
  "sum_list (map snd (foldl (\<lambda>t x. tally_add x t) t xs)) =
     sum_list (map snd t) + int (length xs)"
  by (induction xs arbitrary: t) (simp_all add: tally_add_sum)

lemma foldl_tally_set:
  "fst ` set (foldl (\<lambda>t x. tally_add x t) t xs) = fst ` set t \<union> set xs"
  by (induction xs arbitrary: t) (simp_all add: tally_add_key_set)

lemma foldl_tally_distinct:
  "distinct (map fst t) \<Longrightarrow> distinct (map fst (foldl (\<lambda>t x. tally_add x t) t xs))"
  by (induction xs arbitrary: t) (auto simp: tally_add_keys)

lemma foldl_tally_fresh:
  "distinct xs \<Longrightarrow> set xs \<inter> set (map fst t) = {} \<Longrightarrow>
   foldl (\<lambda>t x. tally_add x t) t xs = t @ map (\<lambda>x. (x, 1)) xs"
proof (induction xs arbitrary: t)
  case Nil
  then show ?case by simp
next
  case (Cons x xs)
  have fresh: "x \<notin> set (map fst t)" using Cons.prems by auto
  have "set xs \<inter> set (map fst (t @ [(x, 1)])) = {}" using Cons.prems by auto
  then show ?case using Cons.IH [of "t @ [(x, 1)]"] Cons.prems fresh
    by (simp add: tally_add_fresh)
qed

lemma tally_sum: "sum_list (map snd (tally xs)) = int (length xs)"
  by (simp add: tally_def foldl_tally_sum)

lemma tally_set: "fst ` set (tally xs) = set xs"
  by (simp add: tally_def foldl_tally_set)

lemma tally_distinct: "distinct (map fst (tally xs))"
  by (simp add: tally_def foldl_tally_distinct)

lemma tally_of_distinct: "distinct xs \<Longrightarrow> tally xs = map (\<lambda>x. (x, 1)) xs"
  using foldl_tally_fresh [of xs "[]"] by (simp add: tally_def)

lemma tally_Nil_iff: "tally xs = [] \<longleftrightarrow> xs = []"
  using tally_set [of xs] by (cases xs) auto

lemma sort_key_constant: "(\<And>x. x \<in> set xs \<Longrightarrow> f x = c) \<Longrightarrow> sort_key f xs = xs"
proof (induction xs)
  case Nil
  then show ?case by simp
next
  case (Cons x xs)
  then have "sort_key f xs = xs" by simp
  moreover have "insort_key f x xs = x # xs" using Cons.prems by (cases xs) auto
  ultimately show ?case by simp
qed

lemma value_counts_of_distinct:
  assumes "distinct xs"
  shows "value_counts xs = map (\<lambda>x. (x, 1)) xs"
proof -
  have "sort_key snd (rev (map (\<lambda>x. (x, 1::int)) xs)) = rev (map (\<lambda>x. (x, 1)) xs)"
    by (rule sort_key_constant [where c = 1]) auto
  then show ?thesis by (simp add: value_counts_def tally_of_distinct [OF assms])
qed

section \<open>The daily-orders table\<close>

lemma group_counts_total:
  "distinct ks \<Longrightarrow> f ` set xs \<subseteq> set ks \<Longrightarrow>
   (\<Sum>k\<leftarrow>ks. int (length (filter (\<lambda>r. f r = k) xs))) = int (length xs)"
proof (induction xs)
  case Nil
  then show ?case by simp
next
  case (Cons x xs)
  have mem: "f x \<in> set ks" using Cons.prems by auto
  have one: "(\<Sum>k\<leftarrow>ks. if f x = k then 1 else 0) = (1::int)"
    using Cons.prems(1) mem by (simp add: sum_list_distinct_conv_sum_set sum.delta')
  have "(\<Sum>k\<leftarrow>ks. int (length (filter (\<lambda>r. f r = k) (x # xs)))) =
        (\<Sum>k\<leftarrow>ks. (if f x = k then 1 else 0) + int (length (filter (\<lambda>r. f r = k) xs)))"
    by (rule arg_cong [where f = sum_list]) auto
  also have "\<dots> = 1 + int (length xs)"
    using Cons one by (simp add: sum_list_addf)
  finally show ?case by simp
qed

lemma daily_dates:
  "map fst (create_daily_orders_df df) = sort (remdups (map approval_date df))"
  by (simp add: create_daily_orders_df_def comp_def)

lemma daily_total: "total_order (create_daily_orders_df df) = int (length df)"
  using group_counts_total [of "sort (remdups (map approval_date df))" approval_date df]
  by (simp add: total_order_def create_daily_orders_df_def comp_def)

text \<open>
  Claim C5. For every selection, the "Total Orders" metric, the sum of the order counts
  of the daily-orders table of the working set, is the number of order records of the
  working set.
\<close>

theorem total_order_counts_filtered_records:
  "total_order (create_daily_orders_df (main_df all_df start_date end_date)) =
     int (length (main_df all_df start_date end_date))"
  by (rule daily_total)

theorem total_order_counts_filtered_records_witness:
  "length (main_df example_orders 17532 17535) = 4 \<and>
   total_order (create_daily_orders_df (main_df example_orders 17532 17535)) = 4"
proof -
  have n: "length (main_df example_orders 17532 17535) = 4" by code_simp
  show ?thesis
    using total_order_counts_filtered_records [of example_orders 17532 17535] n by simp
qed

text \<open>
  Claim C9. The dates of the daily-orders table are strictly increasing, so no date
  occurs twice.
\<close>

theorem daily_orders_dates_strictly_increasing:
  "sorted_wrt (<) (map fst (create_daily_orders_df df)) \<and>
   distinct (map fst (create_daily_orders_df df))"
  by (simp add: daily_dates strict_sorted_iff)

theorem daily_orders_dates_strictly_increasing_witness:
  "map fst (create_daily_orders_df example_orders) = [17532, 17533, 17535] \<and>
   sorted_wrt (<) (map fst (create_daily_orders_df example_orders))"
proof -
  have d: "map fst (create_daily_orders_df example_orders) = [17532, 17533, 17535]"
    by code_simp
  show ?thesis
    using daily_orders_dates_strictly_increasing [of example_orders] d by simp
qed

section \<open>The date filter\<close>

lemma midnight_le_iff: "midnight d \<le> t \<longleftrightarrow> d \<le> date_of t"
  unfolding midnight_def date_of_def ns_per_day_def by linarith

lemma le_midnight_iff: "t \<le> midnight d \<longleftrightarrow> date_of t < d \<or> t = midnight d"
  unfolding midnight_def date_of_def ns_per_day_def by linarith

text \<open>
  What the filter keeps: the orders approved on a day from \<open>start_date\<close> up to the day
  before \<open>end_date\<close>, and of the orders approved on \<open>end_date\<close> only those approved at
  00:00:00 sharp.
\<close>

lemma main_df_rows:
  "main_df all_df start_date end_date =
     filter (\<lambda>r. start_date \<le> approval_date r \<and>
                 (approval_date r < end_date \<or> order_approved_at r = midnight end_date))
       all_df"
  by (simp add: main_df_def approval_date_def midnight_le_iff le_midnight_iff)

text \<open>
  Claim C1 says that the working set holds exactly the orders whose approval timestamp
  falls on a day of the inclusive range from \<open>start_date\<close> to \<open>end_date\<close>, those
  approved at any time of day on \<open>end_date\<close> included. The code does not do that: with
  2018-01-01 (day 17532) as start and end, three example orders are approved on that day
  (at 10:00, 10:00 and 15:00) and the working set is empty.
\<close>

theorem selection_drops_orders_approved_on_end_date:
  "filter (\<lambda>r. 17532 \<le> approval_date r \<and> approval_date r \<le> 17532) example_orders =
     take 3 example_orders
   \<and> main_df example_orders 17532 17532 = []"
  by code_simp

section \<open>Rendering an empty working set\<close>

lemma tables_of_no_orders:
  "create_daily_orders_df [] = []"
  "create_sum_order_items_df [] = []"
  "review_score_df [] = ([], None)"
  "create_bystate_df [] = ([], None)"
  "create_order_status [] = ([], None)"
  by (simp_all add: create_daily_orders_df_def create_sum_order_items_df_def
      review_score_df_def create_bystate_df_def create_order_status_def tally_def)

lemma render_no_review_scores: "render daily items [] state statuses = Inl ValueError"
  by (simp add: render_def most_common_review_score_def value_counts_def tally_def)

lemma length_value_counts: "length (value_counts xs) = length (tally xs)"
  by (simp add: value_counts_def)

lemma value_counts_Nil_iff: "value_counts xs = [] \<longleftrightarrow> xs = []"
  using length_value_counts [of xs] tally_Nil_iff [of xs] by (metis length_0_conv)

lemma idxmax_nonempty: "t \<noteq> [] \<Longrightarrow> \<exists>k. idxmax t = Inr k"
  by (cases t) auto

lemma index0_nonempty: "t \<noteq> [] \<Longrightarrow> \<exists>k. index0 t = Inr k"
  by (cases t) auto

text \<open>On a working set with at least one order the three look-ups succeed.\<close>

lemma dashboard_completes:
  assumes "df \<noteq> []"
  shows "\<exists>d. dashboard df = Inr d"
proof -
  have "value_counts (map snd (tally (map review_score df))) \<noteq> []"
       "value_counts (map fst (tally (map customer_state df))) \<noteq> []"
       "value_counts (map snd (tally (map order_status df))) \<noteq> []"
    using assms by (simp_all add: value_counts_Nil_iff tally_Nil_iff)
  then obtain a b c where
    "idxmax (value_counts (map snd (tally (map review_score df)))) = Inr a"
    "index0 (value_counts (map fst (tally (map customer_state df)))) = Inr b"
    "index0 (value_counts (map snd (tally (map order_status df)))) = Inr c"
    using idxmax_nonempty index0_nonempty by metis
  then show ?thesis
    by (simp add: dashboard_def render_def most_common_review_score_def
        most_common_state_def common_status'_def review_score_df_def
        create_bystate_df_def create_order_status_def)
qed

text \<open>
  Claim C2, as amended. For a date-range selection whose working set is empty, every
  aggregate table is empty, and the run does not complete: it stops with
  \<^verbatim>\<open>ValueError\<close> where "Most Common Review Score" takes \<^verbatim>\<open>idxmax\<close> of an empty
  table (line 146).
\<close>

theorem empty_selection_stops_with_ValueError:
  assumes "main_df all_df start_date end_date = []"
  shows "create_daily_orders_df (main_df all_df start_date end_date) = [] \<and>
         create_sum_order_items_df (main_df all_df start_date end_date) = [] \<and>
         review_score_df (main_df all_df start_date end_date) = ([], None) \<and>
         create_bystate_df (main_df all_df start_date end_date) = ([], None) \<and>
         create_order_status (main_df all_df start_date end_date) = ([], None) \<and>
         dashboard (main_df all_df start_date end_date) = Inl ValueError"
  by (simp add: assms tables_of_no_orders dashboard_def render_no_review_scores)

theorem empty_selection_stops_with_ValueError_witness:
  "main_df example_orders 17534 17534 = [] \<and>
   create_daily_orders_df (main_df example_orders 17534 17534) = [] \<and>
   dashboard (main_df example_orders 17534 17534) = Inl ValueError"
proof -
  have h: "main_df example_orders 17534 17534 = []" by code_simp
  show ?thesis
    using empty_selection_stops_with_ValueError [OF h] h by simp
qed

text \<open>
  The claim as it was stated (the rendering completes without raising) fails for the
  selection of 2018-01-03 (day 17534) alone, a day of the data's range without orders.
\<close>

theorem empty_selection_does_not_render:
  "main_df example_orders 17534 17534 = [] \<and>
   dashboard (main_df example_orders 17534 17534) = Inl ValueError"
  by code_simp

section \<open>The review-score metrics\<close>

text \<open>
  The series \<open>review_score\<close> is the frequency table, so its mean is the number of
  orders divided by the number of distinct scores.
\<close>

lemma avg_review_score_is_orders_per_score:
  assumes "df \<noteq> []"
  shows "avg_review_score (fst (review_score_df df)) =
           Some (of_nat (length df) / of_nat (card (review_score ` set df)))"
proof -
  let ?t = "tally (map review_score df)"
  have "length ?t = card (review_score ` set df)"
    using distinct_card [OF tally_distinct [of "map review_score df"]]
          tally_set [of "map review_score df"] by simp
  moreover have "?t \<noteq> []" using assms by (simp add: tally_Nil_iff)
  ultimately show ?thesis
    by (simp add: avg_review_score_def review_score_df_def mean_def tally_sum)
qed

text \<open>
  Claim C3 says that "Avg. Review Score" is the arithmetic mean of the review scores of
  the working set. The code does not do that: for the scores 5, 5, 4, 3, 5 the mean
  is 22/5 and the metric is 5/3, the mean of the counts 3, 1, 1.
\<close>

theorem avg_review_score_of_example:
  "map review_score example_orders = [5, 5, 4, 3, 5] \<and>
   fst (review_score_df example_orders) = [(5, 3), (4, 1), (3, 1)] \<and>
   avg_review_score (fst (review_score_df example_orders)) = Some (5 / 3) \<and>
   mean (map review_score example_orders) = Some (22 / 5)"
  by code_simp

lemma argmax_from_mem: "argmax_from kv t \<in> fst ` set (kv # t)"
  by (induction kv t rule: argmax_from.induct) auto

lemma value_counts_keys: "fst ` set (value_counts xs) = set xs"
  by (simp add: value_counts_def tally_set)

text \<open>The displayed "most common review score" is one of the counts of the table.\<close>

lemma most_common_review_score_is_a_count:
  assumes "most_common_review_score t = Inr k"
  shows "k \<in> snd ` set t"
proof (cases "value_counts (map snd t)")
  case Nil
  then show ?thesis using assms by (simp add: most_common_review_score_def)
next
  case (Cons kv r)
  then have "k = argmax_from kv r"
    using assms by (simp add: most_common_review_score_def)
  then have "k \<in> fst ` set (value_counts (map snd t))"
    using argmax_from_mem [of kv r] Cons by simp
  then show ?thesis by (simp add: value_counts_keys)
qed

text \<open>
  Claim C4 says that "Most Common Review Score" is the modal review score. The code
  does not do that: for the scores 5, 5, 4, 3, 5 the modal score is 5 (the mode that
  \<open>review_score_df\<close> returns), and the displayed value is 1, the count that occurs most
  often among the counts 3, 1, 1.
\<close>

theorem most_common_review_score_of_example:
  "review_score_df example_orders = ([(5, 3), (4, 1), (3, 1)], Some 5) \<and>
   most_common_review_score (fst (review_score_df example_orders)) = Inr 1"
  by code_simp

section \<open>The most common state\<close>

text \<open>
  \<^verbatim>\<open>state.customer_state.value_counts().index[0]\<close> (line 166) never reads the
  customer counts. In a by-state table every state code stands in one row, so
  \<open>value_counts\<close> of the state column counts each code once and, ties kept in row
  order, the first label is the state of the table's first row.
\<close>

lemma most_common_state_first_row:
  "distinct (map fst state) \<Longrightarrow> state \<noteq> [] \<Longrightarrow>
   most_common_state state = Inr (fst (hd state))"
  by (cases state) (auto simp: most_common_state_def value_counts_of_distinct)

text \<open>
  Whether the displayed state is the one with the maximum customer count is therefore
  decided by the row order of the table that \<^verbatim>\<open>DataAnalyzer.create_bystate_df\<close>
  returns, which neither the script nor the specification states. On a table whose rows
  are ordered by customer count, descending, it is.
\<close>

lemma most_common_state_on_descending_table:
  assumes "distinct (map fst state)"
      and "state \<noteq> []"
      and "sorted_wrt (\<lambda>a b. snd b \<le> snd a) state"
  shows "most_common_state state = Inr (fst (hd state)) \<and>
         (\<forall>r \<in> set state. snd r \<le> snd (hd state))"
proof -
  obtain r0 rest where st: "state = r0 # rest" using assms(2) by (cases state) auto
  have "\<forall>r \<in> set rest. snd r \<le> snd r0" using assms(3) st by simp
  then have "\<forall>r \<in> set state. snd r \<le> snd (hd state)" using st by simp
  then show ?thesis using most_common_state_first_row [OF assms(1) assms(2)] by simp
qed

section \<open>The items metric\<close>

lemma tally_add_map_of:
  "map_of (tally_add x t) =
     (map_of t)(x \<mapsto> (case map_of t x of None \<Rightarrow> 1 | Some n \<Rightarrow> n + 1))"
  by (induction x t rule: tally_add.induct) (auto simp: fun_eq_iff)

lemma foldl_tally_map_of:
  "map_of (foldl (\<lambda>t x. tally_add x t) t xs) k =
     (if k \<in> set xs \<or> map_of t k \<noteq> None
      then Some ((case map_of t k of None \<Rightarrow> 0 | Some n \<Rightarrow> n) +
                 int (length (filter (\<lambda>x. x = k) xs)))
      else None)"
proof (induction xs arbitrary: t)
  case Nil
  then show ?case by (auto split: option.splits)
next
  case (Cons x xs)
  show ?case
    unfolding foldl_Cons Cons.IH [of "tally_add x t"] tally_add_map_of
    by (auto split: option.splits)
qed

lemma tally_map_of:
  "map_of (tally xs) k =
     (if k \<in> set xs then Some (int (length (filter (\<lambda>x. x = k) xs))) else None)"
  by (simp add: tally_def foldl_tally_map_of)

lemma tally_rows:
  "set (tally xs) = (\<lambda>k. (k, int (length (filter (\<lambda>x. x = k) xs)))) ` set xs"
proof -
  have "(k, n) \<in> set (tally xs) \<longleftrightarrow>
        k \<in> set xs \<and> n = int (length (filter (\<lambda>x. x = k) xs))" for k n
    using map_of_eq_Some_iff [OF tally_distinct, of xs k n]
    by (auto simp: tally_map_of split: if_splits)
  then show ?thesis by auto
qed

text \<open>
  The modelled per-category table has one row for each distinct category of the working
  set, holding the number of its item records.
\<close>

lemma sum_order_items_rows:
  "distinct (map fst (create_sum_order_items_df df)) \<and>
   set (create_sum_order_items_df df) =
     (\<lambda>c. (c, item_count df c)) ` product_category_name_english ` set df"
proof -
  let ?t = "tally (map product_category_name_english df)"
  have "distinct (map fst (sort_key (\<lambda>(c, n). (- n, c)) ?t))"
    using tally_distinct [of "map product_category_name_english df"]
    by (simp add: distinct_map)
  moreover have
    "int (length (filter (\<lambda>x. x = c) (map product_category_name_english df))) =
       item_count df c" for c
    by (simp add: item_count_def filter_map comp_def)
  ultimately show ?thesis
    by (simp add: create_sum_order_items_df_def tally_rows image_image)
qed

text \<open>
  Claim C10. Let \<open>tbl\<close> be the per-category table of a non-empty working set \<open>df\<close>:
  one row per distinct product category with the number of its item records, in any row
  order. Then "Avg. Items per Order" is the sum of the per-category item counts divided
  by the number of distinct categories. It is not the number of items divided by the
  number of orders: for the example orders the two differ.
\<close>

theorem avg_items_is_per_category_average:
  assumes "df \<noteq> []"
      and "distinct (map fst tbl)"
      and "set tbl = (\<lambda>c. (c, item_count df c)) ` product_category_name_english ` set df"
  shows "avg_items tbl =
           Some (of_int (\<Sum>c \<in> product_category_name_english ` set df. item_count df c) /
                 of_nat (card (product_category_name_english ` set df)))
         \<and> avg_items (create_sum_order_items_df example_orders) \<noteq>
             Some (items_per_order example_orders)"
proof -
  let ?C = "product_category_name_english ` set df"
  have d: "distinct tbl"
    using assms(2) by (rule distinct_map [THEN iffD1, THEN conjunct1])
  have keys: "fst ` set tbl = ?C" using assms(3) by (simp add: image_image)
  have len: "length tbl = card ?C"
    using distinct_card [OF assms(2)] keys by simp
  have "sum_list (map snd tbl) = sum snd (set tbl)"
    using d by (simp add: sum_list_distinct_conv_sum_set)
  also have "\<dots> = (\<Sum>c \<in> ?C. item_count df c)"
    unfolding assms(3) by (subst sum.reindex) (auto simp: inj_on_def)
  finally have s: "sum_list (map snd tbl) = (\<Sum>c \<in> ?C. item_count df c)" .
  have "tbl \<noteq> []" using assms(1) keys by auto
  then have avg: "avg_items tbl = Some (of_int (\<Sum>c \<in> ?C. item_count df c) / of_nat (card ?C))"
    by (simp add: avg_items_def mean_def s len)
  have differ: "avg_items (create_sum_order_items_df example_orders) \<noteq>
                  Some (items_per_order example_orders)"
    by code_simp
  show ?thesis using avg differ by (rule conjI)
qed

theorem avg_items_is_per_category_average_witness:
  "example_orders \<noteq> [] \<and>
   create_sum_order_items_df example_orders =
     [(''bed_bath_table'', 3), (''auto'', 1), (''toys'', 1)] \<and>
   avg_items (create_sum_order_items_df example_orders) = Some (5 / 3) \<and>
   items_per_order example_orders = 5 / 4"
proof -
  have h1: "example_orders \<noteq> []" by code_simp
  have t: "create_sum_order_items_df example_orders =
             [(''bed_bath_table'', 3), (''auto'', 1), (''toys'', 1)]"
    by code_simp
  have v: "(\<Sum>c \<in> product_category_name_english ` set example_orders.
              item_count example_orders c) = 5"
    by code_simp
  have n: "card (product_category_name_english ` set example_orders) = 3" by code_simp
  have p: "items_per_order example_orders = 5 / 4" by code_simp
  have "avg_items (create_sum_order_items_df example_orders) = Some (5 / 3)"
    using avg_items_is_per_category_average
      [OF h1 sum_order_items_rows [of example_orders, THEN conjunct1]
          sum_order_items_rows [of example_orders, THEN conjunct2]] v n
    by simp
  then show ?thesis using h1 t p by simp
qed

end
